theory Spec2Isabelle
  imports Main "HOL-Library.AList"
begin

section \<open>Python values shared by the modules\<close>

text \<open>
  The exceptions that the modelled code can raise. A function that can raise returns a
  sum whose left injection carries the exception.
\<close>

datatype py_error = KeyError | AttributeError | ValueError | OverflowError

text \<open>\<^verbatim>\<open>str.startswith\<close> and \<^verbatim>\<open>str.endswith\<close> on character sequences.\<close>

definition startswith :: "string \<Rightarrow> string \<Rightarrow> bool" where
  "startswith s p = (take (length p) s = p)"

definition endswith :: "string \<Rightarrow> string \<Rightarrow> bool" where
  "endswith s p = (length p \<le> length s \<and> drop (length s - length p) s = p)"

text \<open>
  A \<^verbatim>\<open>datetime.datetime\<close> is a number of microseconds (the resolution of the Python type)
  since \<^verbatim>\<open>datetime.min\<close>, the start of year 1; \<^verbatim>\<open>datetime.max\<close>, the last microsecond of year
  9999, is day 3652059 of the calendar.
\<close>

type_synonym datetime = int

definition datetime_max :: datetime where
  "datetime_max = 3652059 * 86400 * 1000000 - 1"

text \<open>
  \<^verbatim>\<open>datetime.timedelta(seconds=n)\<close> for an integer \<open>n\<close>, in microseconds. The constructor
  normalises to days and seconds of the day and raises \<^verbatim>\<open>OverflowError\<close> when the number of
  days has a magnitude above 999999999.
\<close>

definition timedelta_seconds :: "int \<Rightarrow> py_error + int" where
  "timedelta_seconds n =
     (if n div 86400 < - 999999999 \<or> 999999999 < n div 86400 then Inl OverflowError
      else Inr (n * 1000000))"

text \<open>
  The sum of a \<^verbatim>\<open>datetime\<close> and a \<^verbatim>\<open>timedelta\<close> raises \<^verbatim>\<open>OverflowError\<close> when the result is not
  between \<^verbatim>\<open>datetime.min\<close> and \<^verbatim>\<open>datetime.max\<close>.
\<close>

definition datetime_add :: "datetime \<Rightarrow> int \<Rightarrow> py_error + datetime" where
  "datetime_add t d =
     (if t + d < 0 \<or> datetime_max < t + d then Inl OverflowError else Inr (t + d))"

text \<open>
  The module \<^verbatim>\<open>tvtumbler.quality\<close> is not among the sources. Its two constants that the
  code reads are parameters of the model: qualities are Python integers, compared with
  \<^verbatim>\<open>==\<close>, \<^verbatim>\<open>!=\<close> and \<^verbatim>\<open>max\<close>.
\<close>

record quality_module =
  UNKNOWN_QUALITY :: int
  HD720P_COMP :: int

section \<open>The normalised model: shows, episodes, downloadables\<close>

record TvShow =
  tvdb_id :: int

record TvEpisode =
  tvshow :: TvShow
  tvdb_episodes :: "(int \<times> int) list"

text \<open>
  What \<^verbatim>\<open>item.published_parsed\<close> holds when the attribute exists: the parsed 9-tuple, or
  \<^verbatim>\<open>None\<close>, which is what feedparser stores for a date string that none of its date
  handlers could parse.
\<close>

datatype parsed_date = PyNone | StructTime "int list"

text \<open>The timestamp handed to a \<^verbatim>\<open>Torrent\<close>: the feed's value, or \<^verbatim>\<open>datetime.now()\<close>.\<close>

datatype pub_date = FeedDate parsed_date | CurrentTime datetime

text \<open>
  A \<^verbatim>\<open>Downloadable\<close> (here always a \<^verbatim>\<open>Torrent\<close>), with the constructor arguments of
  \<^verbatim>\<open>TorrentFeeder._parse_rss_item\<close>. The back reference \<^verbatim>\<open>feeder=self\<close> is read by none of
  the modelled code and is left out. The name is the entry's title, which is \<^verbatim>\<open>None\<close>
  when the entry has none.
\<close>

record Downloadable =
  urls :: "string list"
  episodes :: "TvEpisode list"
  name :: "string option"
  quality :: int
  timestamp :: pub_date

section \<open>feeder.run: the index of wanted downloadables and the selection\<close>

type_synonym episode_key = "int \<times> int \<times> int"

text \<open>
  Python dictionaries are association lists with distinct keys, in order of first
  insertion. The order in which Python 2 iterates a dictionary is arbitrary; no statement
  below depends on it.
\<close>

type_synonym dlables_dict = "(int \<times> Downloadable) list"
type_synonym wanted_dict = "(episode_key \<times> dlables_dict) list"

text \<open>Lines 33 to 37 of feeder.py: the body of the innermost loop.\<close>

definition record_wanted :: "Downloadable \<Rightarrow> int \<Rightarrow> episode_key \<Rightarrow> wanted_dict \<Rightarrow> wanted_dict" where
  "record_wanted w qual key wanted_dict =
     (let wanted_dict1 =
            (if map_of wanted_dict key = None then AList.update key [] wanted_dict
             else wanted_dict)
      in case map_of wanted_dict1 key of
           None \<Rightarrow> wanted_dict1
         | Some dlables \<Rightarrow>
             if map_of dlables qual = None
             then AList.update key (AList.update qual w dlables) wanted_dict1
             else wanted_dict1)"

text \<open>Lines 30 to 32: the loop over the (season, episode) pairs of one episode.\<close>

definition index_episode :: "Downloadable \<Rightarrow> int \<Rightarrow> TvEpisode \<Rightarrow> wanted_dict \<Rightarrow> wanted_dict" where
  "index_episode w qual ep wanted_dict =
     (let tvdb = tvdb_id (tvshow ep)
      in fold (\<lambda>(season, episode). record_wanted w qual (tvdb, season, episode))
           (tvdb_episodes ep) wanted_dict)"

text \<open>Lines 28 to 30: one wanted downloadable, over its episodes.\<close>

definition index_wanted :: "Downloadable \<Rightarrow> wanted_dict \<Rightarrow> wanted_dict" where
  "index_wanted w wanted_dict =
     (let qual = quality w in fold (index_episode w qual) (episodes w) wanted_dict)"

text \<open>Lines 27 to 37: the index built from the wanted downloadables, in their order.\<close>

definition build_wanted_dict :: "Downloadable list \<Rightarrow> wanted_dict" where
  "build_wanted_dict wanted = fold index_wanted wanted []"

text \<open>\<^verbatim>\<open>max\<close> of a list of integers raises \<^verbatim>\<open>ValueError\<close> on the empty list.\<close>

fun py_max :: "int list \<Rightarrow> py_error + int" where
  "py_max [] = Inl ValueError"
| "py_max (x # xs) = Inr (fold max xs x)"

text \<open>\<^verbatim>\<open>d[k]\<close> raises \<^verbatim>\<open>KeyError\<close> when the key is missing.\<close>

definition getitem :: "('k \<times> 'v) list \<Rightarrow> 'k \<Rightarrow> py_error + 'v" where
  "getitem d k = (case map_of d k of None \<Rightarrow> Inl KeyError | Some v \<Rightarrow> Inr v)"

text \<open>Lines 40 to 45: the downloadable chosen for one episode key.\<close>

definition select_dlable :: "quality_module \<Rightarrow> dlables_dict \<Rightarrow> py_error + Downloadable" where
  "select_dlable qm dlables =
     (let qualities = map fst dlables;
          known_qualities = filter (\<lambda>q. q \<noteq> UNKNOWN_QUALITY qm) qualities
      in if known_qualities \<noteq> []
         then (case py_max known_qualities of
                 Inl e \<Rightarrow> Inl e
               | Inr m \<Rightarrow> getitem dlables m)
         else getitem dlables (UNKNOWN_QUALITY qm))"

text \<open>
  Lines 39 to 46: the loop over the index. The second component is the list of the
  arguments of the calls of \<^verbatim>\<open>downloaders.download\<close> made so far; an exception ends the
  loop and keeps the calls already made.
\<close>

fun download_all :: "quality_module \<Rightarrow> wanted_dict \<Rightarrow> Downloadable list
    \<Rightarrow> py_error option \<times> Downloadable list" where
  "download_all qm [] downloaded = (None, downloaded)"
| "download_all qm ((key, dlables) # rest) downloaded =
     (case select_dlable qm dlables of
        Inl e \<Rightarrow> (Some e, downloaded)
      | Inr use_dlable \<Rightarrow> download_all qm rest (downloaded @ [use_dlable]))"

text \<open>
  \<^verbatim>\<open>run\<close>. The list \<^verbatim>\<open>feeders.get_latest()\<close> and the property \<^verbatim>\<open>is_wanted\<close> (decided by the
  want list, outside the sources) are arguments.
\<close>

definition run :: "quality_module \<Rightarrow> (Downloadable \<Rightarrow> bool) \<Rightarrow> Downloadable list
    \<Rightarrow> py_error option \<times> Downloadable list" where
  "run qm is_wanted latest_downloadables =
     (let wanted = filter is_wanted latest_downloadables;
          wanted_dict = build_wanted_dict wanted
      in download_all qm wanted_dict [])"

text \<open>The episode keys a downloadable is indexed under, and \<^verbatim>\<open>wanted_dict[key][qual]\<close>.\<close>

definition episode_keys :: "Downloadable \<Rightarrow> episode_key list" where
  "episode_keys w =
     concat (map (\<lambda>ep. map (\<lambda>(season, episode). (tvdb_id (tvshow ep), season, episode))
                          (tvdb_episodes ep)) (episodes w))"

definition lookup2 :: "wanted_dict \<Rightarrow> episode_key \<Rightarrow> int \<Rightarrow> Downloadable option" where
  "lookup2 d key qual = (case map_of d key of None \<Rightarrow> None | Some dlables \<Rightarrow> map_of dlables qual)"

text \<open>Every episode key of the index has at least one quality key.\<close>

definition nonempty_dlables :: "wanted_dict \<Rightarrow> bool" where
  "nonempty_dlables d = (\<forall>key dlables. map_of d key = Some dlables \<longrightarrow> dlables \<noteq> [])"

section \<open>Example data\<close>

text \<open>
  A quality module with example values, and releases of episode 1x05 of show 42.
\<close>

definition example_quality :: quality_module where
  "example_quality = \<lparr>UNKNOWN_QUALITY = 0, HD720P_COMP = 4\<rparr>"

definition example_episode :: TvEpisode where
  "example_episode = \<lparr>tvshow = \<lparr>tvdb_id = 42\<rparr>, tvdb_episodes = [(1, 5)]\<rparr>"

definition example_release :: "string \<Rightarrow> int \<Rightarrow> Downloadable" where
  "example_release n q =
     \<lparr>urls = [''magnet:?xt=urn:btih:'' @ n], episodes = [example_episode], name = Some n,
      quality = q, timestamp = CurrentTime 0\<rparr>"

section \<open>Feed entries as the feed parser delivers them\<close>

text \<open>
  An entry is an object of the external feed parser. Reading an attribute that the entry
  does not have raises \<^verbatim>\<open>AttributeError\<close>; such an attribute is \<open>None\<close> in the records below.
  The attributes that exist hold strings, lists, or the parsed date.
\<close>

record enclosure =
  enc_type :: "string option"
  enc_href :: "string option"

record link =
  link_href :: "string option"

record rss_item =
  filename :: "string option"
  magneturi :: "string option"
  enclosures :: "enclosure list option"
  links :: "link list option"
  title :: "string option"
  published_parsed :: "parsed_date option"
  infohash :: "string option"

record feed =
  entries :: "rss_item list"

section \<open>The name parser\<close>

text \<open>
  The classes of \<^verbatim>\<open>tvtumbler.names\<close> and the constants of \<^verbatim>\<open>tvtumbler.numbering\<close> are not among
  the sources. \<^verbatim>\<open>get_nameparser()\<close> is a parameter: a function of the name to parse (\<^verbatim>\<open>None\<close>
  when the entry has neither file name nor title), the flag \<^verbatim>\<open>has_ext\<close> and the numbering,
  giving the three attributes that the feeder reads.
\<close>

datatype numbering = SCENE_NUMBERING | TVDB_NUMBERING

record nameparser_result =
  is_known :: bool
  np_episodes :: "TvEpisode list"
  np_quality :: int

type_synonym nameparser = "string option \<Rightarrow> bool \<Rightarrow> numbering \<Rightarrow> nameparser_result"

definition get_numbering :: numbering where
  "get_numbering = SCENE_NUMBERING"

section \<open>feeders/base.py: TorrentFeeder.\_parse\_rss\_item\<close>

text \<open>
  Lines 136 to 138: the condition on one enclosure. The third disjunct calls
  \<^verbatim>\<open>enc.href.endwidth\<close>; a string has no attribute of that name, so reaching it raises
  \<^verbatim>\<open>AttributeError\<close>.
\<close>

definition enclosure_wanted :: "enclosure \<Rightarrow> py_error + bool" where
  "enclosure_wanted enc =
     (case enc_type enc of
        None \<Rightarrow> Inl AttributeError
      | Some t \<Rightarrow>
          if t = ''application/x-bittorrent'' then Inr True
          else (case enc_href enc of
                  None \<Rightarrow> Inl AttributeError
                | Some h \<Rightarrow>
                    if startswith h ''magnet:'' then Inr True
                    else Inl AttributeError))"

text \<open>
  Lines 134 to 141: the loop over the enclosures inside \<^verbatim>\<open>try\<close>. The handler catches
  \<^verbatim>\<open>KeyError\<close> and \<^verbatim>\<open>AttributeError\<close> and passes: the loop ends at the first exception and the
  URLs appended before it stay.
\<close>

fun collect_enclosures :: "enclosure list \<Rightarrow> string list \<Rightarrow> string list" where
  "collect_enclosures [] found = found"
| "collect_enclosures (enc # rest) found =
     (case enclosure_wanted enc of
        Inl e \<Rightarrow> found
      | Inr b \<Rightarrow>
          if b then (case enc_href enc of
                       None \<Rightarrow> found
                     | Some h \<Rightarrow> collect_enclosures rest (found @ [h]))
          else collect_enclosures rest found)"

text \<open>Lines 143 to 148: the same for the links, with \<^verbatim>\<open>endswith\<close>.\<close>

definition link_wanted :: "link \<Rightarrow> py_error + bool" where
  "link_wanted l =
     (case link_href l of
        None \<Rightarrow> Inl AttributeError
      | Some h \<Rightarrow> Inr (startswith h ''magnet:'' \<or> endswith h ''.torrent''))"

fun collect_links :: "link list \<Rightarrow> string list \<Rightarrow> string list" where
  "collect_links [] found = found"
| "collect_links (l # rest) found =
     (case link_wanted l of
        Inl e \<Rightarrow> found
      | Inr b \<Rightarrow>
          if b then (case link_href l of
                       None \<Rightarrow> found
                     | Some h \<Rightarrow> collect_links rest (found @ [h]))
          else collect_links rest found)"

text \<open>
  The list \<^verbatim>\<open>urls\<close> at line 172: lines 127 to 132 (the magnet URI, when it is a non-empty
  string), the enclosures, the links, lines 161 to 169 (a magnet made from the info hash
  when no collected URL is a magnet), then \<^verbatim>\<open>list(set(urls))\<close>. The order of the elements of that
  last list is arbitrary in Python; here it is that of \<open>remdups\<close>.
\<close>

definition collect_urls :: "rss_item \<Rightarrow> string list" where
  "collect_urls item =
     (let urls1 = (case magneturi item of
                     None \<Rightarrow> []
                   | Some magnet_uri \<Rightarrow> if magnet_uri \<noteq> [] then [magnet_uri] else []);
          urls2 = (case enclosures item of
                     None \<Rightarrow> urls1
                   | Some encs \<Rightarrow> collect_enclosures encs urls1);
          urls3 = (case links item of
                     None \<Rightarrow> urls2
                   | Some ls \<Rightarrow> collect_links ls urls2);
          urls4 = (case infohash item of
                     None \<Rightarrow> urls3
                   | Some infoHash \<Rightarrow>
                       if infoHash \<noteq> []
                       then (let magnets = filter (\<lambda>k. startswith k ''magnet:'') urls3
                             in if length magnets = 0
                                then urls3 @ [''magnet:?xt=urn:btih:'' @ infoHash]
                                else urls3)
                       else urls3)
      in remdups urls4)"

text \<open>
  \<^verbatim>\<open>TorrentFeeder._parse_rss_item\<close>. The argument \<open>now\<close> is what \<^verbatim>\<open>datetime.datetime.now()\<close>
  returns at line 159. No statement of the method raises an exception that its handlers
  do not catch, so the result is the \<^verbatim>\<open>Torrent\<close> or \<^verbatim>\<open>None\<close>.
\<close>

definition torrent_parse_rss_item :: "nameparser \<Rightarrow> datetime \<Rightarrow> rss_item \<Rightarrow> Downloadable option" where
  "torrent_parse_rss_item get_nameparser now item =
     (let fileName = filename item;
          pubDate = (case published_parsed item of
                       None \<Rightarrow> CurrentTime now
                     | Some d \<Rightarrow> FeedDate d);
          urls = collect_urls item
      in if length urls = 0 then None
         else
           (let (parse_name, has_ext) =
                  (if fileName \<noteq> None \<and> fileName \<noteq> Some [] then (fileName, True)
                   else (title item, False));
                nameparser = get_nameparser parse_name has_ext get_numbering
            in if \<not> is_known nameparser then None
               else Some \<lparr>urls = urls,
                          episodes = np_episodes nameparser,
                          name = title item,
                          quality = np_quality nameparser,
                          timestamp = pubDate\<rparr>))"

section \<open>feeders/showrss.py: ShowRSSFeeder.\_parse\_rss\_item\<close>

text \<open>
  Reading \<^verbatim>\<open>item.title\<close> at line 28 is outside every \<^verbatim>\<open>try\<close>: an entry without title raises
  \<^verbatim>\<open>AttributeError\<close>. \<^verbatim>\<open>known_quality\<close> is \<^verbatim>\<open>quality.HD720P_COMP\<close> or \<^verbatim>\<open>False\<close> (here \<open>None\<close>); in
  the condition of line 34 an integer counts as true when it is not zero, and a \<^verbatim>\<open>Torrent\<close>
  object counts as true. The entry with the shortened title is read by the call of the
  inherited method only.
\<close>

definition showrss_parse_rss_item :: "quality_module \<Rightarrow> nameparser \<Rightarrow> datetime \<Rightarrow> rss_item
    \<Rightarrow> py_error + Downloadable option" where
  "showrss_parse_rss_item qm get_nameparser now item =
     (case title item of
        None \<Rightarrow> Inl AttributeError
      | Some t \<Rightarrow>
          (let (item1, known_quality) =
                 (if startswith t ''HD 720p: ''
                  then (item\<lparr>title := Some (drop 9 t)\<rparr>, Some (HD720P_COMP qm))
                  else (item, None))
           in case torrent_parse_rss_item get_nameparser now item1 of
                None \<Rightarrow> Inr None
              | Some torrent \<Rightarrow>
                  (case known_quality of
                     None \<Rightarrow> Inr (Some torrent)
                   | Some k \<Rightarrow>
                       if quality torrent = UNKNOWN_QUALITY qm \<and> k \<noteq> 0
                       then Inr (Some (torrent\<lparr>quality := k\<rparr>))
                       else Inr (Some torrent))))"

section \<open>feeders/base.py: BaseFeeder\<close>

record BaseFeeder =
  min_update_freq_secs :: int
  rss_url :: "string option"
  latest :: "Downloadable list"
  last_update_datetime :: "datetime option"

text \<open>\<^verbatim>\<open>BaseFeeder.__init__\<close> and \<^verbatim>\<open>ShowRSSFeeder.__init__\<close>.\<close>

definition base_init :: BaseFeeder where
  "base_init = \<lparr>min_update_freq_secs = 15 * 60, rss_url = None, latest = [],
                 last_update_datetime = None\<rparr>"

definition showrss_init :: BaseFeeder where
  "showrss_init = base_init\<lparr>rss_url := Some ''http://showrss.karmorra.info/feeds/all.rss''\<rparr>"

text \<open>\<^verbatim>\<open>BaseFeeder._parse_rss_item\<close>.\<close>

definition base_parse_rss_item :: "rss_item \<Rightarrow> Downloadable option" where
  "base_parse_rss_item item = None"

text \<open>
  Lines 85 to 88: the loop over the entries. \<^verbatim>\<open>self._parse_rss_item\<close> is the method of the
  adapter's class and is an argument; it may raise. An exception leaves the loop with the
  downloadables appended so far.
\<close>

fun parse_entries :: "(rss_item \<Rightarrow> py_error + Downloadable option) \<Rightarrow> rss_item list
    \<Rightarrow> Downloadable list \<Rightarrow> py_error option \<times> Downloadable list" where
  "parse_entries parse_rss_item [] acc = (None, acc)"
| "parse_entries parse_rss_item (entry # rest) acc =
     (case parse_rss_item entry of
        Inl e \<Rightarrow> (Some e, acc)
      | Inr i \<Rightarrow>
          (case i of
             None \<Rightarrow> parse_entries parse_rss_item rest acc
           | Some d \<Rightarrow> parse_entries parse_rss_item rest (acc @ [d])))"

text \<open>
  \<^verbatim>\<open>BaseFeeder._update\<close>. The argument \<open>fetched\<close> is what \<^verbatim>\<open>feedparser.parse(self.rss_url)\<close>
  returned, \<open>None\<close> when that value counts as false; \<open>now\<close> is the clock at line 81.
\<close>

definition update :: "(rss_item \<Rightarrow> py_error + Downloadable option) \<Rightarrow> BaseFeeder
    \<Rightarrow> feed option \<Rightarrow> datetime \<Rightarrow> (py_error + bool) \<times> BaseFeeder" where
  "update parse_rss_item self fetched now =
     (let self1 = self\<lparr>last_update_datetime := Some now\<rparr>;
          self2 = self1\<lparr>latest := []\<rparr>
      in case fetched of
           None \<Rightarrow> (Inr False, self2)
         | Some f \<Rightarrow>
             (case parse_entries parse_rss_item (entries f) (latest self2) of
                (None, l) \<Rightarrow> (Inr True, self2\<lparr>latest := l\<rparr>)
              | (Some e, l) \<Rightarrow> (Inl e, self2\<lparr>latest := l\<rparr>)))"

text \<open>
  Lines 70 to 72: the condition of \<^verbatim>\<open>get_latest\<close>. \<open>now\<close> is the clock at line 72. Building the
  \<^verbatim>\<open>timedelta\<close> and adding it to the time of the last update can each raise
  \<^verbatim>\<open>OverflowError\<close>.
\<close>

definition update_due :: "BaseFeeder \<Rightarrow> datetime \<Rightarrow> py_error + bool" where
  "update_due self now =
     (case last_update_datetime self of
        None \<Rightarrow> Inr True
      | Some t \<Rightarrow>
          (case timedelta_seconds (min_update_freq_secs self) of
             Inl e \<Rightarrow> Inl e
           | Inr d \<Rightarrow>
               (case datetime_add t d of
                  Inl e \<Rightarrow> Inl e
                | Inr s \<Rightarrow> Inr (s < now))))"

text \<open>
  \<^verbatim>\<open>BaseFeeder.get_latest\<close>. The third component of the result lists the arguments of the
  calls of \<^verbatim>\<open>feedparser.parse\<close> that were made. An exception of the condition leaves the
  feeder as it was, and no call is made.
\<close>

definition get_latest :: "(rss_item \<Rightarrow> py_error + Downloadable option) \<Rightarrow> BaseFeeder
    \<Rightarrow> datetime \<Rightarrow> feed option \<Rightarrow> datetime
    \<Rightarrow> (py_error + Downloadable list) \<times> BaseFeeder \<times> string option list" where
  "get_latest parse_rss_item self now fetched now_update =
     (case update_due self now of
        Inl e \<Rightarrow> (Inl e, self, [])
      | Inr due \<Rightarrow>
          if due
          then (case update parse_rss_item self fetched now_update of
                  (Inl e, self1) \<Rightarrow> (Inl e, self1, [rss_url self])
                | (Inr b, self1) \<Rightarrow> (Inr (latest self1), self1, [rss_url self]))
          else (Inr (latest self), self, []))"

text \<open>
  An entry without attributes, a name parser that knows every name, an entry with a
  magnet URI, and a feeder whose cache was filled at time 0.
\<close>

definition example_item :: rss_item where
  "example_item = \<lparr>filename = None, magneturi = None, enclosures = None, links = None,
                    title = None, published_parsed = None, infohash = None\<rparr>"

definition example_nameparser :: nameparser where
  "example_nameparser parse_name has_ext numbering_system =
     \<lparr>is_known = (parse_name \<noteq> None),
      np_episodes = [example_episode],
      np_quality = (if parse_name = Some ''Show.Name.S01E05.720p.HDTV'' then 4 else 0)\<rparr>"

definition example_parse :: "rss_item \<Rightarrow> py_error + Downloadable option" where
  "example_parse = (\<lambda>item. Inr (torrent_parse_rss_item example_nameparser 0 item))"

definition example_magnet_item :: rss_item where
  "example_magnet_item =
     example_item\<lparr>magneturi := Some ''magnet:?xt=urn:btih:abc'',
                   title := Some ''Show.Name.S01E05''\<rparr>"

definition example_feeder :: BaseFeeder where
  "example_feeder = base_init\<lparr>latest := [example_release ''A'' 4],
                              last_update_datetime := Some 0\<rparr>"

text \<open>
  An entry with two enclosures, the second of the bittorrent type, whose links repeat the
  enclosures (the feed parser derives the enclosures of an entry from its links), and an
  entry whose only enclosure is a link to a torrent file of another declared type.
\<close>

definition example_enclosure_item :: rss_item where
  "example_enclosure_item =
     example_item
       \<lparr>enclosures := Some [\<lparr>enc_type = Some ''application/octet-stream'',
                              enc_href = Some ''http://example.com/get/1''\<rparr>,
                            \<lparr>enc_type = Some ''application/x-bittorrent'',
                              enc_href = Some ''http://example.com/get/2''\<rparr>],
        links := Some [\<lparr>link_href = Some ''http://example.com/get/1''\<rparr>,
                       \<lparr>link_href = Some ''http://example.com/get/2''\<rparr>],
        title := Some ''Show.Name.S01E05''\<rparr>"

definition example_torrent_enclosure_item :: rss_item where
  "example_torrent_enclosure_item =
     example_item
       \<lparr>enclosures := Some [\<lparr>enc_type = Some ''application/octet-stream'',
                              enc_href = Some ''http://example.com/a.torrent''\<rparr>],
        title := Some ''Show.Name.S01E05''\<rparr>"

text \<open>
  An entry with a magnet URI and no title, a third entry with both, and a feeder last
  updated at the start of 2013 whose interval of minus \<open>10\<^sup>1\<^sup>1\<close> seconds leads before year 1.
\<close>

definition example_untitled_item :: rss_item where
  "example_untitled_item = example_item\<lparr>magneturi := Some ''magnet:?xt=urn:btih:def''\<rparr>"

definition example_third_item :: rss_item where
  "example_third_item =
     example_item\<lparr>magneturi := Some ''magnet:?xt=urn:btih:ghi'',
                   title := Some ''Show.Name.S01E06''\<rparr>"


section \<open>Properties of the index built by feeder.run\<close>

lemma set_update_subset: "set (AList.update k v al) \<subseteq> insert (k, v) (set al)"
  by (induction al) auto

lemma lookup2_record_wanted:
  "lookup2 (record_wanted w qual key d) k q =
     (if k = key \<and> q = qual \<and> lookup2 d k q = None then Some w else lookup2 d k q)"
  by (auto simp: lookup2_def record_wanted_def Let_def AList.update_conv' split: option.splits)

lemma keys_record_wanted:
  "fst ` set (record_wanted w qual key d) = insert key (fst ` set d)"
  by (auto simp: record_wanted_def Let_def AList.dom_update map_of_eq_None_iff split: option.splits)

lemma distinct_record_wanted:
  "distinct (map fst d) \<Longrightarrow> distinct (map fst (record_wanted w qual key d))"
  by (auto simp: record_wanted_def Let_def AList.distinct_update split: option.splits)

lemma nonempty_record_wanted:
  assumes "nonempty_dlables d"
  shows "nonempty_dlables (record_wanted w qual key d)"
  using assms
  by (auto simp: nonempty_dlables_def record_wanted_def Let_def AList.update_conv'
      split: option.splits if_splits)

lemma fold_concat_map:
  "fold f (concat (map g xs)) d = fold (\<lambda>x. fold f (g x)) xs d"
  by (induction xs arbitrary: d) auto

lemma index_wanted_keys:
  "index_wanted w d = fold (record_wanted w (quality w)) (episode_keys w) d"
proof -
  have ep: "index_episode w q =
      (\<lambda>ep. fold (record_wanted w q) (map (Pair (tvdb_id (tvshow ep))) (tvdb_episodes ep)))" for q
    by (intro ext) (simp add: index_episode_def fold_map comp_def case_prod_unfold)
  have "(\<lambda>(season, episode). (t, season, episode)) = Pair t" for t :: int
    by (rule ext) (simp add: case_prod_unfold)
  then show ?thesis
    by (simp add: index_wanted_def episode_keys_def fold_concat_map ep)
qed

lemma lookup2_fold_record:
  "lookup2 (fold (record_wanted w qual) ks d) k q =
     (if k \<in> set ks \<and> q = qual \<and> lookup2 d k q = None then Some w else lookup2 d k q)"
  by (induction ks arbitrary: d) (auto simp: lookup2_record_wanted)

lemma lookup2_index_wanted:
  "lookup2 (index_wanted w d) k q =
     (if k \<in> set (episode_keys w) \<and> q = quality w \<and> lookup2 d k q = None then Some w
      else lookup2 d k q)"
  by (simp add: index_wanted_keys lookup2_fold_record)

lemma lookup2_fold_index:
  "lookup2 (fold index_wanted ws d) k q =
     (case lookup2 d k q of
        Some r \<Rightarrow> Some r
      | None \<Rightarrow> find (\<lambda>w. k \<in> set (episode_keys w) \<and> quality w = q) ws)"
  by (induction ws arbitrary: d) (auto simp: lookup2_index_wanted split: option.splits)

lemma lookup2_build:
  "lookup2 (build_wanted_dict ws) k q = find (\<lambda>w. k \<in> set (episode_keys w) \<and> quality w = q) ws"
proof -
  have "lookup2 [] k q = None" by (simp add: lookup2_def)
  then show ?thesis by (simp add: build_wanted_dict_def lookup2_fold_index)
qed

lemma nonempty_fold_record:
  "nonempty_dlables d \<Longrightarrow> nonempty_dlables (fold (record_wanted w qual) ks d)"
  by (induction ks arbitrary: d) (auto simp: nonempty_record_wanted)

lemma nonempty_fold_index:
  "nonempty_dlables d \<Longrightarrow> nonempty_dlables (fold index_wanted ws d)"
  by (induction ws arbitrary: d) (auto simp: index_wanted_keys nonempty_fold_record)

lemma nonempty_build: "nonempty_dlables (build_wanted_dict ws)"
proof -
  have "nonempty_dlables []" by (simp add: nonempty_dlables_def)
  then show ?thesis unfolding build_wanted_dict_def by (rule nonempty_fold_index)
qed

lemma distinct_fold_record:
  "distinct (map fst d) \<Longrightarrow> distinct (map fst (fold (record_wanted w qual) ks d))"
  by (induction ks arbitrary: d) (auto simp: distinct_record_wanted)

lemma distinct_fold_index:
  "distinct (map fst d) \<Longrightarrow> distinct (map fst (fold index_wanted ws d))"
  by (induction ws arbitrary: d) (auto simp: index_wanted_keys distinct_fold_record)

lemma distinct_build: "distinct (map fst (build_wanted_dict ws))"
  by (simp add: build_wanted_dict_def distinct_fold_index)

lemma keys_fold_record:
  "fst ` set (fold (record_wanted w qual) ks d) = set ks \<union> fst ` set d"
  by (induction ks arbitrary: d) (auto simp: keys_record_wanted)

lemma keys_fold_index:
  "fst ` set (fold index_wanted ws d) = (\<Union>w\<in>set ws. set (episode_keys w)) \<union> fst ` set d"
  by (induction ws arbitrary: d) (auto simp: index_wanted_keys keys_fold_record)

lemma keys_build:
  "fst ` set (build_wanted_dict ws) = (\<Union>w\<in>set ws. set (episode_keys w))"
  by (simp add: build_wanted_dict_def keys_fold_index)

lemma py_max_in:
  "xs \<noteq> [] \<Longrightarrow> \<exists>m. py_max xs = Inr m \<and> m \<in> set xs \<and> (\<forall>x\<in>set xs. x \<le> m)"
proof (cases xs)
  case Nil
  assume "xs \<noteq> []"
  with Nil show ?thesis by simp
next
  case (Cons a as)
  have "fold max as a = Max (set (a # as))"
    by (simp only: Max.set_eq_fold)
  then show ?thesis using Cons
    by (auto simp del: set_simps(2) intro: Max_in Max_ge) 
qed

lemma select_dlable_known:
  assumes "filter (\<lambda>q. q \<noteq> UNKNOWN_QUALITY qm) (map fst dlables) \<noteq> []"
  shows "\<exists>r m. select_dlable qm dlables = Inr r \<and> map_of dlables m = Some r
           \<and> m \<noteq> UNKNOWN_QUALITY qm
           \<and> (\<forall>q\<in>fst ` set dlables. q \<noteq> UNKNOWN_QUALITY qm \<longrightarrow> q \<le> m)"
proof -
  let ?known = "filter (\<lambda>q. q \<noteq> UNKNOWN_QUALITY qm) (map fst dlables)"
  from py_max_in [OF assms] obtain m where
    m: "py_max ?known = Inr m" "m \<in> set ?known" "\<forall>x\<in>set ?known. x \<le> m"
    by blast
  from m(2) have "m \<in> fst ` set dlables" and ne: "m \<noteq> UNKNOWN_QUALITY qm"
    by auto
  then obtain r where r: "map_of dlables m = Some r"
    by (meson map_of_eq_None_iff not_Some_eq)
  have "select_dlable qm dlables = Inr r"
    using assms m(1) r by (simp add: select_dlable_def getitem_def)
  moreover have "\<forall>q\<in>fst ` set dlables. q \<noteq> UNKNOWN_QUALITY qm \<longrightarrow> q \<le> m"
    using m(3) by auto
  ultimately show ?thesis using r ne by blast
qed

lemma select_dlable_unknown:
  assumes "dlables \<noteq> []"
    and "filter (\<lambda>q. q \<noteq> UNKNOWN_QUALITY qm) (map fst dlables) = []"
  shows "\<exists>r. getitem dlables (UNKNOWN_QUALITY qm) = Inr r \<and> select_dlable qm dlables = Inr r"
proof -
  from assms(1) obtain p ps where "dlables = p # ps" by (cases dlables) auto
  with assms(2) have "UNKNOWN_QUALITY qm \<in> fst ` set dlables"
    by (auto simp: filter_empty_conv)
  then obtain r where "map_of dlables (UNKNOWN_QUALITY qm) = Some r"
    by (meson map_of_eq_None_iff not_Some_eq)
  then show ?thesis using assms(2) by (simp add: select_dlable_def getitem_def)
qed

lemma select_dlable_total:
  "dlables \<noteq> [] \<Longrightarrow> \<exists>r. select_dlable qm dlables = Inr r"
  using select_dlable_known [of qm dlables] select_dlable_unknown [of dlables qm]
  by blast

lemma download_all_keeps:
  "set downloaded \<subseteq> set (snd (download_all qm d downloaded))"
proof (induction d arbitrary: downloaded)
  case Nil
  show ?case by simp
next
  case (Cons p d)
  obtain key dlables where p: "p = (key, dlables)" by (cases p)
  show ?case
  proof (cases "select_dlable qm dlables")
    case (Inl e)
    with p show ?thesis by simp
  next
    case (Inr r)
    with p Cons [of "downloaded @ [r]"] show ?thesis by auto
  qed
qed

lemma download_all_ok:
  "\<forall>(key, dlables)\<in>set d. dlables \<noteq> [] \<Longrightarrow> fst (download_all qm d downloaded) = None"
proof (induction d arbitrary: downloaded)
  case Nil
  show ?case by simp
next
  case (Cons p d)
  obtain key dlables where p: "p = (key, dlables)" by (cases p)
  with Cons.prems have "dlables \<noteq> []" by simp
  then obtain r where "select_dlable qm dlables = Inr r"
    using select_dlable_total by blast
  with p Cons show ?case by simp
qed

lemma download_all_member:
  assumes "(key, dlables) \<in> set d" and "select_dlable qm dlables = Inr r"
    and "fst (download_all qm d downloaded) = None"
  shows "r \<in> set (snd (download_all qm d downloaded))"
  using assms
proof (induction d arbitrary: downloaded)
  case Nil
  then show ?case by simp
next
  case (Cons p d)
  obtain k dl where p: "p = (k, dl)" by (cases p)
  show ?case
  proof (cases "select_dlable qm dl")
    case (Inl e)
    with p Cons.prems(3) show ?thesis by simp
  next
    case (Inr r')
    show ?thesis
    proof (cases "(key, dlables) = (k, dl)")
      case True
      with Inr Cons.prems(2) have "r' = r" by simp
      moreover have "set (downloaded @ [r']) \<subseteq> set (snd (download_all qm d (downloaded @ [r'])))"
        by (rule download_all_keeps)
      ultimately show ?thesis using p Inr by auto
    next
      case False
      with Cons.prems(1) p have "(key, dlables) \<in> set d" by auto
      moreover from Cons.prems(3) p Inr
      have "fst (download_all qm d (downloaded @ [r'])) = None" by simp
      ultimately have "r \<in> set (snd (download_all qm d (downloaded @ [r'])))"
        using Cons.IH Cons.prems(2) by blast
      with p Inr show ?thesis by simp
    qed
  qed
qed

lemma build_elements_nonempty:
  "\<forall>(key, dlables)\<in>set (build_wanted_dict ws). dlables \<noteq> []"
proof -
  have "dlables \<noteq> []" if "(key, dlables) \<in> set (build_wanted_dict ws)" for key dlables
  proof -
    from that distinct_build [of ws] have "map_of (build_wanted_dict ws) key = Some dlables"
      by (rule_tac map_of_is_SomeI)
    with nonempty_build [of ws] show ?thesis unfolding nonempty_dlables_def by blast
  qed
  then show ?thesis by blast
qed

lemma run_no_error: "fst (run qm is_wanted latest_downloadables) = None"
  by (simp add: run_def download_all_ok build_elements_nonempty)

lemma find_Some_member: "find P xs = Some x \<Longrightarrow> x \<in> set xs \<and> P x"
  by (induction xs) (auto split: if_splits)

lemma select_dlable_source:
  "select_dlable qm dlables = Inr r \<Longrightarrow> \<exists>m. map_of dlables m = Some r"
  by (auto simp: select_dlable_def getitem_def Let_def split: if_splits sum.splits option.splits)

text \<open>
  Claim C7. For every episode key of the index built by \<^verbatim>\<open>run\<close>: when no recorded quality
  differs from \<^verbatim>\<open>UNKNOWN_QUALITY\<close>, the access \<^verbatim>\<open>dlables[quality.UNKNOWN_QUALITY]\<close> succeeds
  and gives the selected downloadable; the run as a whole raises no exception.
\<close>

theorem C7_unknown_fallback_present:
  assumes "(key, dlables) \<in> set (build_wanted_dict (filter is_wanted latest_downloadables))"
    and "filter (\<lambda>q. q \<noteq> UNKNOWN_QUALITY qm) (map fst dlables) = []"
  shows "\<exists>r. getitem dlables (UNKNOWN_QUALITY qm) = Inr r \<and> select_dlable qm dlables = Inr r
           \<and> fst (run qm is_wanted latest_downloadables) = None"
proof -
  from assms(1) have "dlables \<noteq> []"
    using build_elements_nonempty by blast
  from select_dlable_unknown [OF this assms(2)] show ?thesis
    by (simp add: run_no_error)
qed

text \<open>The equations that evaluate the model on the example data.\<close>

lemmas example_defs = example_quality_def example_episode_def example_release_def
  build_wanted_dict_def index_wanted_def index_episode_def record_wanted_def
  run_def select_dlable_def getitem_def episode_keys_def

theorem C7_unknown_fallback_present_witness:
  "((42, 1, 5), [(0, example_release ''A'' 0)])
      \<in> set (build_wanted_dict (filter (\<lambda>w. True) [example_release ''A'' 0, example_release ''B'' 0]))
   \<and> filter (\<lambda>q. q \<noteq> UNKNOWN_QUALITY example_quality) (map fst [(0::int, example_release ''A'' 0)]) = []
   \<and> (\<exists>r. getitem [(0, example_release ''A'' 0)] (UNKNOWN_QUALITY example_quality) = Inr r
          \<and> select_dlable example_quality [(0, example_release ''A'' 0)] = Inr r
          \<and> fst (run example_quality (\<lambda>w. True) [example_release ''A'' 0, example_release ''B'' 0]) = None)"
proof -
  have h1: "((42, 1, 5), [(0, example_release ''A'' 0)])
      \<in> set (build_wanted_dict (filter (\<lambda>w. True) [example_release ''A'' 0, example_release ''B'' 0]))"
    by (simp add: example_defs)
  have h2: "filter (\<lambda>q. q \<noteq> UNKNOWN_QUALITY example_quality) (map fst [(0::int, example_release ''A'' 0)]) = []"
    by (simp add: example_defs)
  from C7_unknown_fallback_present [OF h1 h2] h1 h2 show ?thesis by blast
qed

text \<open>
  The calls of \<^verbatim>\<open>downloaders.download\<close>: one for each entry of the index, in its order,
  with the downloadable selected for that entry.
\<close>

lemma download_all_exact:
  "\<forall>(key, dlables)\<in>set d. dlables \<noteq> [] \<Longrightarrow>
     map Inr (snd (download_all qm d downloaded))
       = map Inr downloaded @ map (\<lambda>(key, dlables). select_dlable qm dlables) d"
proof (induction d arbitrary: downloaded)
  case Nil
  show ?case by simp
next
  case (Cons p d)
  obtain key dlables where p: "p = (key, dlables)" by (cases p)
  with Cons.prems have "dlables \<noteq> []" by simp
  then obtain r where r: "select_dlable qm dlables = Inr r"
    using select_dlable_total by blast
  from Cons.prems have "\<forall>(key, dlables)\<in>set d. dlables \<noteq> []" by simp
  from Cons.IH [OF this, of "downloaded @ [r]"] p r show ?case by simp
qed

lemma run_exact:
  "map Inr (snd (run qm is_wanted latest_downloadables))
     = map (\<lambda>(key, dlables). select_dlable qm dlables)
         (build_wanted_dict (filter is_wanted latest_downloadables))"
  using download_all_exact [OF build_elements_nonempty, of qm "filter is_wanted latest_downloadables" "[]"]
  by (simp add: run_def)

text \<open>
  Claim C2. \<^verbatim>\<open>run\<close> raises nothing and calls \<^verbatim>\<open>downloaders.download\<close> exactly once for each
  episode key of the index, with the downloadable selected for that key and with nothing
  else. Whenever a wanted downloadable of known quality references an episode key, the
  downloadable selected for that key is the one recorded at the numerically greatest
  known quality: it is wanted, references the key, is of known quality, is the first of
  its quality in the list, and no wanted downloadable of known quality for the key has
  a greater quality, whatever its position in the list.
\<close>

theorem C2_max_known_quality_dispatched:
  assumes "w \<in> set latest_downloadables" and "is_wanted w"
    and "key \<in> set (episode_keys w)" and "quality w \<noteq> UNKNOWN_QUALITY qm"
  shows "fst (run qm is_wanted latest_downloadables) = None
       \<and> map Inr (snd (run qm is_wanted latest_downloadables))
           = map (\<lambda>(key, dlables). select_dlable qm dlables)
               (build_wanted_dict (filter is_wanted latest_downloadables))
       \<and> distinct (map fst (build_wanted_dict (filter is_wanted latest_downloadables)))
       \<and> (\<exists>dlables r.
           map_of (build_wanted_dict (filter is_wanted latest_downloadables)) key = Some dlables
         \<and> select_dlable qm dlables = Inr r
         \<and> r \<in> set (snd (run qm is_wanted latest_downloadables))
         \<and> r \<in> set latest_downloadables \<and> is_wanted r \<and> key \<in> set (episode_keys r)
         \<and> quality r \<noteq> UNKNOWN_QUALITY qm
         \<and> find (\<lambda>x. key \<in> set (episode_keys x) \<and> quality x = quality r)
              (filter is_wanted latest_downloadables) = Some r
         \<and> (\<forall>x\<in>set latest_downloadables.
               is_wanted x \<and> key \<in> set (episode_keys x) \<and> quality x \<noteq> UNKNOWN_QUALITY qm
               \<longrightarrow> quality x \<le> quality r))"
proof -
  let ?ws = "filter is_wanted latest_downloadables"
  let ?d = "build_wanted_dict ?ws"
  let ?P = "\<lambda>q x. key \<in> set (episode_keys x) \<and> quality x = q"
  from assms have "key \<in> fst ` set ?d"
    by (auto simp: keys_build)
  then obtain dlables where dl: "map_of ?d key = Some dlables"
    by (meson map_of_eq_None_iff not_Some_eq)
  have look: "map_of dlables q = find (?P q) ?ws" for q
    using lookup2_build [of ?ws key q] dl by (simp add: lookup2_def)
  have present: "quality x \<in> fst ` set dlables"
    if "x \<in> set latest_downloadables" "is_wanted x" "key \<in> set (episode_keys x)" for x
  proof -
    from that have "find (?P (quality x)) ?ws \<noteq> None"
      by (auto simp: find_None_iff)
    with look [of "quality x"] have "map_of dlables (quality x) \<noteq> None"
      by simp
    then show ?thesis
      by (simp only: map_of_eq_None_iff not_not)
  qed
  from present [of w] assms
  have "quality w \<in> set (filter (\<lambda>q. q \<noteq> UNKNOWN_QUALITY qm) (map fst dlables))"
    by simp
  then have "filter (\<lambda>q. q \<noteq> UNKNOWN_QUALITY qm) (map fst dlables) \<noteq> []"
    by (metis empty_iff empty_set)
  from select_dlable_known [OF this] obtain r m where
    r: "select_dlable qm dlables = Inr r" "map_of dlables m = Some r" "m \<noteq> UNKNOWN_QUALITY qm"
      "\<forall>q\<in>fst ` set dlables. q \<noteq> UNKNOWN_QUALITY qm \<longrightarrow> q \<le> m"
    by blast
  from r(2) look [of m] have f: "find (?P m) ?ws = Some r" by simp
  from find_Some_member [OF this]
  have rP: "r \<in> set ?ws" "key \<in> set (episode_keys r)" "quality r = m"
    by simp_all
  have ok: "fst (run qm is_wanted latest_downloadables) = None"
    by (rule run_no_error)
  from dl have "(key, dlables) \<in> set ?d" by (rule map_of_SomeD)
  from download_all_member [OF this r(1)] ok
  have disp: "r \<in> set (snd (run qm is_wanted latest_downloadables))"
    by (simp add: run_def)
  have best: "\<forall>x\<in>set latest_downloadables.
      is_wanted x \<and> key \<in> set (episode_keys x) \<and> quality x \<noteq> UNKNOWN_QUALITY qm
      \<longrightarrow> quality x \<le> quality r"
    using present r(4) rP(3) by blast
  have exact: "map Inr (snd (run qm is_wanted latest_downloadables))
      = map (\<lambda>(key, dlables). select_dlable qm dlables) ?d"
    by (rule run_exact)
  have dist: "distinct (map fst ?d)"
    by (rule distinct_build)
  from dl r(1) disp rP r(3) f best
  have "\<exists>dlables r.
           map_of ?d key = Some dlables
         \<and> select_dlable qm dlables = Inr r
         \<and> r \<in> set (snd (run qm is_wanted latest_downloadables))
         \<and> r \<in> set latest_downloadables \<and> is_wanted r \<and> key \<in> set (episode_keys r)
         \<and> quality r \<noteq> UNKNOWN_QUALITY qm
         \<and> find (\<lambda>x. key \<in> set (episode_keys x) \<and> quality x = quality r) ?ws = Some r
         \<and> (\<forall>x\<in>set latest_downloadables.
               is_wanted x \<and> key \<in> set (episode_keys x) \<and> quality x \<noteq> UNKNOWN_QUALITY qm
               \<longrightarrow> quality x \<le> quality r)"
    by auto
  with ok exact dist show ?thesis by blast
qed

theorem C2_max_known_quality_dispatched_witness:
  "example_release ''A'' 4 \<in> set [example_release ''A'' 4, example_release ''B'' 8]
   \<and> (42, 1, 5) \<in> set (episode_keys (example_release ''A'' 4))
   \<and> quality (example_release ''A'' 4) \<noteq> UNKNOWN_QUALITY example_quality
   \<and> run example_quality (\<lambda>w. True) [example_release ''A'' 4, example_release ''B'' 8]
        = (None, [example_release ''B'' 8])"
proof -
  let ?a = "example_release ''A'' 4" and ?b = "example_release ''B'' 8"
  have h1: "?a \<in> set [?a, ?b]" by simp
  have h3: "(42, 1, 5) \<in> set (episode_keys ?a)" by (simp add: example_defs)
  have h3b: "(42, 1, 5) \<in> set (episode_keys ?b)" by (simp add: example_defs)
  have h4: "quality ?a \<noteq> UNKNOWN_QUALITY example_quality" by (simp add: example_defs)
  have qa: "quality ?a = 4" and qb: "quality ?b = 8" and u: "UNKNOWN_QUALITY example_quality = 0"
    by (simp_all add: example_defs)
  have idx: "build_wanted_dict (filter (\<lambda>w. True) [?a, ?b]) = [((42, 1, 5), [(4, ?a), (8, ?b)])]"
    by (simp add: build_wanted_dict_def index_wanted_def index_episode_def record_wanted_def
        example_release_def example_episode_def)
  from C2_max_known_quality_dispatched [of ?a "[?a, ?b]" "\<lambda>w. True" "(42, 1, 5)" example_quality, OF h1 _ h3 h4]
  obtain dlables r where
    ok: "fst (run example_quality (\<lambda>w. True) [?a, ?b]) = None"
    and exact: "map Inr (snd (run example_quality (\<lambda>w. True) [?a, ?b]))
        = map (\<lambda>(key, dlables). select_dlable example_quality dlables)
            (build_wanted_dict (filter (\<lambda>w. True) [?a, ?b]))"
    and dl: "map_of (build_wanted_dict (filter (\<lambda>w. True) [?a, ?b])) (42, 1, 5) = Some dlables"
    and sel: "select_dlable example_quality dlables = Inr r"
    and mem: "r \<in> set [?a, ?b]"
    and best: "\<forall>x\<in>set [?a, ?b]. True \<and> (42, 1, 5) \<in> set (episode_keys x)
           \<and> quality x \<noteq> UNKNOWN_QUALITY example_quality \<longrightarrow> quality x \<le> quality r"
    by blast
  from best h3b qb u have "8 \<le> quality r" by simp
  with mem qa have rb: "r = ?b" by auto
  from dl idx have "dlables = [(4, ?a), (8, ?b)]" by simp
  with sel rb have "select_dlable example_quality [(4, ?a), (8, ?b)] = Inr ?b" by simp
  with exact idx
  have "map Inr (snd (run example_quality (\<lambda>w. True) [?a, ?b]))
      = [Inr ?b :: py_error + Downloadable]"
    by simp
  then have "snd (run example_quality (\<lambda>w. True) [?a, ?b]) = [?b]"
    by (simp add: map_eq_Cons_conv)
  with ok have "run example_quality (\<lambda>w. True) [?a, ?b] = (None, [?b])"
    by (simp add: prod_eq_iff)
  with h1 h3 h4 show ?thesis by simp
qed
text \<open>
  Claim C3. Of two wanted downloadables that share an episode key and have the same
  quality, the later one never replaces the earlier one: the index holds, under that key
  and quality, the first downloadable of the list that references the key at that
  quality (it stands at or before the earlier of the two), and whenever \<^verbatim>\<open>run\<close> selects a
  downloadable of that quality for the key, it is that first one.
\<close>

theorem C3_first_seen_wins:
  assumes "wanted = filter is_wanted latest_downloadables"
    and "i < j" and "j < length wanted"
    and "key \<in> set (episode_keys (wanted ! i))"
    and "key \<in> set (episode_keys (wanted ! j))"
    and "quality (wanted ! i) = quality (wanted ! j)"
  shows "\<exists>n\<le>i.
           lookup2 (build_wanted_dict wanted) key (quality (wanted ! j)) = Some (wanted ! n)
         \<and> key \<in> set (episode_keys (wanted ! n))
         \<and> quality (wanted ! n) = quality (wanted ! j)
         \<and> (\<forall>m<n. \<not> (key \<in> set (episode_keys (wanted ! m))
                       \<and> quality (wanted ! m) = quality (wanted ! j)))
         \<and> (\<forall>dlables r.
               map_of (build_wanted_dict wanted) key = Some dlables
               \<and> select_dlable qm dlables = Inr r
               \<and> quality r = quality (wanted ! j)
               \<longrightarrow> r = wanted ! n)"
proof -
  let ?q = "quality (wanted ! j)"
  let ?P = "\<lambda>x. key \<in> set (episode_keys x) \<and> quality x = ?q"
  let ?d = "build_wanted_dict wanted"
  from assms(2-6) have "wanted ! i \<in> set wanted" and "?P (wanted ! i)"
    by simp_all
  then have "find ?P wanted \<noteq> None"
    by (auto simp: find_None_iff)
  then obtain x where x: "find ?P wanted = Some x" by blast
  then obtain n where n: "n < length wanted" "?P (wanted ! n)" "x = wanted ! n"
      "\<forall>m<n. \<not> ?P (wanted ! m)"
    unfolding find_Some_iff by blast
  have "n \<le> i"
  proof (rule ccontr)
    assume "\<not> n \<le> i"
    then have "i < n" by simp
    with n(4) have "\<not> ?P (wanted ! i)" by blast
    with \<open>?P (wanted ! i)\<close> show False by blast
  qed
  have look: "lookup2 ?d key ?q = Some (wanted ! n)"
    using x n(3) by (simp add: lookup2_build)
  have sel: "r = wanted ! n"
    if "map_of ?d key = Some dlables" "select_dlable qm dlables = Inr r" "quality r = ?q"
    for dlables r
  proof -
    from select_dlable_source [OF that(2)] obtain m where m: "map_of dlables m = Some r"
      by blast
    with that(1) have "lookup2 ?d key m = Some r" by (simp add: lookup2_def)
    then have f: "find (\<lambda>x. key \<in> set (episode_keys x) \<and> quality x = m) wanted = Some r"
      by (simp add: lookup2_build)
    from find_Some_member [OF f] have "quality r = m" by simp
    with that(3) f x n(3) show ?thesis by simp
  qed
  from \<open>n \<le> i\<close> look n(2) n(4) sel show ?thesis by blast
qed

theorem C3_first_seen_wins_witness:
  "[example_release ''A'' 4, example_release ''B'' 4]
      = filter (\<lambda>w. True) [example_release ''A'' 4, example_release ''B'' 4]
   \<and> (0::nat) < 1 \<and> 1 < length [example_release ''A'' 4, example_release ''B'' 4]
   \<and> (42, 1, 5) \<in> set (episode_keys ([example_release ''A'' 4, example_release ''B'' 4] ! 0))
   \<and> (42, 1, 5) \<in> set (episode_keys ([example_release ''A'' 4, example_release ''B'' 4] ! 1))
   \<and> quality ([example_release ''A'' 4, example_release ''B'' 4] ! 0)
        = quality ([example_release ''A'' 4, example_release ''B'' 4] ! 1)
   \<and> lookup2 (build_wanted_dict [example_release ''A'' 4, example_release ''B'' 4]) (42, 1, 5) 4
        = Some (example_release ''A'' 4)
   \<and> snd (run example_quality (\<lambda>w. True) [example_release ''A'' 4, example_release ''B'' 4])
        = [example_release ''A'' 4]"
proof -
  let ?ws = "[example_release ''A'' 4, example_release ''B'' 4]"
  have h1: "?ws = filter (\<lambda>w. True) ?ws" by simp
  have h2: "(0::nat) < 1" by simp
  have h3: "1 < length ?ws" by simp
  have h4: "(42, 1, 5) \<in> set (episode_keys (?ws ! 0))" by (simp add: example_defs)
  have h5: "(42, 1, 5) \<in> set (episode_keys (?ws ! 1))" by (simp add: example_defs)
  have h6: "quality (?ws ! 0) = quality (?ws ! 1)" by (simp add: example_defs)
  from C3_first_seen_wins [OF h1 h2 h3 h4 h5 h6]
  obtain n where "n \<le> 0"
    and "lookup2 (build_wanted_dict ?ws) (42, 1, 5) (quality (?ws ! 1)) = Some (?ws ! n)"
    by blast
  then have l: "lookup2 (build_wanted_dict ?ws) (42, 1, 5) 4 = Some (example_release ''A'' 4)"
    by (simp add: example_release_def)
  have r: "snd (run example_quality (\<lambda>w. True) ?ws) = [example_release ''A'' 4]"
    by (simp add: example_defs)
  from h1 h2 h3 h4 h5 h6 l r show ?thesis by blast
qed
section \<open>Properties of the feeders\<close>

text \<open>The loop of \<^verbatim>\<open>_update\<close> when no entry makes the parser raise.\<close>

lemma parse_entries_ok:
  "\<forall>e\<in>set es. \<exists>i. parse e = Inr i \<Longrightarrow>
   parse_entries parse es acc =
     (None, acc @ List.map_filter (\<lambda>e. case parse e of Inl x \<Rightarrow> None | Inr i \<Rightarrow> i) es)"
proof (induction es arbitrary: acc)
  case Nil
  show ?case by simp
next
  case (Cons e es)
  from Cons.prems obtain i where i: "parse e = Inr i" by auto
  from Cons.prems have "\<forall>e\<in>set es. \<exists>i. parse e = Inr i" by simp
  from Cons.IH [OF this] i show ?case
    by (cases i) simp_all
qed

text \<open>
  A refresh whose feed counts as true, and in which no entry makes \<^verbatim>\<open>_parse_rss_item\<close>
  raise, returns \<^verbatim>\<open>True\<close> and leaves as cache exactly the downloadables that the entries of
  this feed parse to, in the order of the feed; nothing of the cache before the refresh
  is kept. The parser of \<^verbatim>\<open>TorrentFeeder\<close> never raises.
\<close>

lemma update_replaces_cache:
  assumes "\<forall>e\<in>set (entries f). \<exists>i. parse_rss_item e = Inr i"
  shows "update parse_rss_item self (Some f) now =
           (Inr True,
            self\<lparr>last_update_datetime := Some now,
                 latest := List.map_filter
                             (\<lambda>e. case parse_rss_item e of Inl x \<Rightarrow> None | Inr i \<Rightarrow> i)
                             (entries f)\<rparr>)"
  using parse_entries_ok [OF assms, of "[]"]
  by (simp add: update_def)

lemma torrent_update_replaces_cache:
  "update (\<lambda>item. Inr (torrent_parse_rss_item np t item)) self (Some f) now =
     (Inr True,
      self\<lparr>last_update_datetime := Some now,
           latest := List.map_filter (torrent_parse_rss_item np t) (entries f)\<rparr>)"
  using update_replaces_cache [of f "\<lambda>item. Inr (torrent_parse_rss_item np t item)" self now]
  by simp

text \<open>The equations that evaluate the feeders on the example data.\<close>

lemmas feeder_defs = example_item_def example_nameparser_def example_parse_def
  example_magnet_item_def example_feeder_def example_quality_def example_episode_def
  example_release_def base_init_def timedelta_seconds_def datetime_add_def datetime_max_def
  update_due_def get_numbering_def startswith_def endswith_def

text \<open>
  Claim C10 fails on the code for \<^verbatim>\<open>ShowRSSFeeder\<close>. Its parser reads \<^verbatim>\<open>item.title\<close> outside
  every \<^verbatim>\<open>try\<close>, where the parser of \<^verbatim>\<open>TorrentFeeder\<close> guards the same read. With a feed of
  three entries whose second has no title, the refresh of a \<^verbatim>\<open>ShowRSSFeeder\<close> raises
  \<^verbatim>\<open>AttributeError\<close> and leaves a cache with the first downloadable only, although the third
  entry parses to a downloadable; the refresh of a \<^verbatim>\<open>TorrentFeeder\<close> on the same feed
  caches both.
\<close>

theorem C10_showrss_untitled_entry_aborts_refresh:
  "update (showrss_parse_rss_item example_quality example_nameparser 0) example_feeder
      (Some \<lparr>entries = [example_magnet_item, example_untitled_item, example_third_item]\<rparr>) 7
   = (Inl AttributeError,
      example_feeder\<lparr>last_update_datetime := Some 7,
        latest := [\<lparr>urls = [''magnet:?xt=urn:btih:abc''], episodes = [example_episode],
                    name = Some ''Show.Name.S01E05'', quality = 0,
                    timestamp = CurrentTime 0\<rparr>]\<rparr>)
   \<and> showrss_parse_rss_item example_quality example_nameparser 0 example_third_item
       = Inr (Some \<lparr>urls = [''magnet:?xt=urn:btih:ghi''], episodes = [example_episode],
                      name = Some ''Show.Name.S01E06'', quality = 0,
                      timestamp = CurrentTime 0\<rparr>)
   \<and> update (\<lambda>item. Inr (torrent_parse_rss_item example_nameparser 0 item)) example_feeder
      (Some \<lparr>entries = [example_magnet_item, example_untitled_item, example_third_item]\<rparr>) 7
   = (Inr True,
      example_feeder\<lparr>last_update_datetime := Some 7,
        latest := [\<lparr>urls = [''magnet:?xt=urn:btih:abc''], episodes = [example_episode],
                    name = Some ''Show.Name.S01E05'', quality = 0,
                    timestamp = CurrentTime 0\<rparr>,
                   \<lparr>urls = [''magnet:?xt=urn:btih:ghi''], episodes = [example_episode],
                    name = Some ''Show.Name.S01E06'', quality = 0,
                    timestamp = CurrentTime 0\<rparr>]\<rparr>)"
proof -
  have t1: "torrent_parse_rss_item example_nameparser 0 example_magnet_item
      = Some \<lparr>urls = [''magnet:?xt=urn:btih:abc''], episodes = [example_episode],
                name = Some ''Show.Name.S01E05'', quality = 0, timestamp = CurrentTime 0\<rparr>"
    by (simp add: torrent_parse_rss_item_def collect_urls_def example_magnet_item_def
        example_item_def example_nameparser_def)
  have t2: "torrent_parse_rss_item example_nameparser 0 example_untitled_item = None"
    by (simp add: torrent_parse_rss_item_def collect_urls_def example_untitled_item_def
        example_item_def example_nameparser_def)
  have t3: "torrent_parse_rss_item example_nameparser 0 example_third_item
      = Some \<lparr>urls = [''magnet:?xt=urn:btih:ghi''], episodes = [example_episode],
                name = Some ''Show.Name.S01E06'', quality = 0, timestamp = CurrentTime 0\<rparr>"
    by (simp add: torrent_parse_rss_item_def collect_urls_def example_third_item_def
        example_item_def example_nameparser_def)
  have s1: "showrss_parse_rss_item example_quality example_nameparser 0 example_magnet_item
      = Inr (Some \<lparr>urls = [''magnet:?xt=urn:btih:abc''], episodes = [example_episode],
                name = Some ''Show.Name.S01E05'', quality = 0, timestamp = CurrentTime 0\<rparr>)"
    using t1 by (simp add: showrss_parse_rss_item_def startswith_def example_magnet_item_def
        example_item_def)
  have s2: "showrss_parse_rss_item example_quality example_nameparser 0 example_untitled_item
      = Inl AttributeError"
    by (simp add: showrss_parse_rss_item_def example_untitled_item_def example_item_def)
  have s3: "showrss_parse_rss_item example_quality example_nameparser 0 example_third_item
      = Inr (Some \<lparr>urls = [''magnet:?xt=urn:btih:ghi''], episodes = [example_episode],
                name = Some ''Show.Name.S01E06'', quality = 0, timestamp = CurrentTime 0\<rparr>)"
    using t3 by (simp add: showrss_parse_rss_item_def startswith_def example_third_item_def
        example_item_def)
  have a: "update (showrss_parse_rss_item example_quality example_nameparser 0) example_feeder
      (Some \<lparr>entries = [example_magnet_item, example_untitled_item, example_third_item]\<rparr>) 7
   = (Inl AttributeError,
      example_feeder\<lparr>last_update_datetime := Some 7,
        latest := [\<lparr>urls = [''magnet:?xt=urn:btih:abc''], episodes = [example_episode],
                    name = Some ''Show.Name.S01E05'', quality = 0,
                    timestamp = CurrentTime 0\<rparr>]\<rparr>)"
    by (simp add: update_def s1 s2)
  have b: "update (\<lambda>item. Inr (torrent_parse_rss_item example_nameparser 0 item)) example_feeder
      (Some \<lparr>entries = [example_magnet_item, example_untitled_item, example_third_item]\<rparr>) 7
   = (Inr True,
      example_feeder\<lparr>last_update_datetime := Some 7,
        latest := [\<lparr>urls = [''magnet:?xt=urn:btih:abc''], episodes = [example_episode],
                    name = Some ''Show.Name.S01E05'', quality = 0,
                    timestamp = CurrentTime 0\<rparr>,
                   \<lparr>urls = [''magnet:?xt=urn:btih:ghi''], episodes = [example_episode],
                    name = Some ''Show.Name.S01E06'', quality = 0,
                    timestamp = CurrentTime 0\<rparr>]\<rparr>)"
    by (simp add: update_def t1 t2 t3)
  from a s3 b show ?thesis by simp
qed

text \<open>
  Claim C1, as the code has it. When \<^verbatim>\<open>get_latest\<close> attempts a refresh and the fetch gives no
  feed, it raises nothing, returns the empty list, and the cache is empty afterwards.
\<close>

theorem C1_failed_fetch_empties_cache:
  assumes "snd (snd (get_latest parse_rss_item self now None now_update)) \<noteq> []"
  shows "fst (get_latest parse_rss_item self now None now_update) = Inr []
       \<and> latest (fst (snd (get_latest parse_rss_item self now None now_update))) = []"
  using assms
  by (auto simp: get_latest_def update_def split: if_splits option.splits sum.splits)

theorem C1_failed_fetch_empties_cache_witness:
  "snd (snd (get_latest example_parse example_feeder 900000001 None 900000002)) \<noteq> []
   \<and> fst (get_latest example_parse example_feeder 900000001 None 900000002) = Inr []
   \<and> latest (fst (snd (get_latest example_parse example_feeder 900000001 None 900000002))) = []"
proof -
  have h: "snd (snd (get_latest example_parse example_feeder 900000001 None 900000002)) \<noteq> []"
    by (simp add: get_latest_def update_def update_due_def example_feeder_def base_init_def
        timedelta_seconds_def datetime_add_def datetime_max_def)
  from C1_failed_fetch_empties_cache [OF h] h show ?thesis by simp
qed

text \<open>
  The claim as stated fails: a feeder whose cache holds one downloadable returns the
  empty list after a failed refresh, and its cache has changed.
\<close>

theorem C1_stale_cache_counterexample:
  "latest example_feeder = [example_release ''A'' 4]
   \<and> snd (snd (get_latest example_parse example_feeder 900000001 None 900000002)) = [None]
   \<and> fst (get_latest example_parse example_feeder 900000001 None 900000002)
        \<noteq> Inr (latest example_feeder)
   \<and> latest (fst (snd (get_latest example_parse example_feeder 900000001 None 900000002)))
        \<noteq> latest example_feeder"
  by (simp add: get_latest_def update_def update_due_def example_feeder_def base_init_def
      timedelta_seconds_def datetime_add_def datetime_max_def)

text \<open>When the interval and the sum fit, the condition compares the elapsed time.\<close>

lemma update_due_cases:
  "update_due self now =
     (case last_update_datetime self of
        None \<Rightarrow> Inr True
      | Some t \<Rightarrow>
          if min_update_freq_secs self div 86400 < - 999999999
             \<or> 999999999 < min_update_freq_secs self div 86400
             \<or> t + min_update_freq_secs self * 1000000 < 0
             \<or> datetime_max < t + min_update_freq_secs self * 1000000
          then Inl OverflowError
          else Inr (min_update_freq_secs self * 1000000 < now - t))"
  by (auto simp: update_due_def timedelta_seconds_def datetime_add_def split: option.splits)



section \<open>Properties of the entry parsers\<close>

text \<open>The title of an entry plays no part in the collection of its URLs.\<close>

lemma collect_urls_title [simp]: "collect_urls (item\<lparr>title := t\<rparr>) = collect_urls item"
  by (simp add: collect_urls_def)

text \<open>A \<^verbatim>\<open>Torrent\<close> carries the collected URLs, and they are not empty.\<close>

lemma torrent_parse_urls:
  "torrent_parse_rss_item np now item = Some d \<Longrightarrow> urls d = collect_urls item \<and> urls d \<noteq> []"
  by (auto simp: torrent_parse_rss_item_def Let_def split: if_splits prod.splits)

lemma torrent_parse_no_urls:
  "collect_urls item = [] \<Longrightarrow> torrent_parse_rss_item np now item = None"
  by (simp add: torrent_parse_rss_item_def)

lemma showrss_parse_urls:
  assumes "showrss_parse_rss_item qm np now item = Inr (Some d)"
  shows "urls d = collect_urls item \<and> urls d \<noteq> []"
proof -
  from assms obtain t where t: "title item = Some t"
    by (auto simp: showrss_parse_rss_item_def split: option.splits)
  define item1 where "item1 = (if startswith t ''HD 720p: '' then item\<lparr>title := Some (drop 9 t)\<rparr> else item)"
  have c: "collect_urls item1 = collect_urls item" by (simp add: item1_def)
  from assms t obtain torrent where
    "torrent_parse_rss_item np now item1 = Some torrent" "urls d = urls torrent"
    by (auto simp: showrss_parse_rss_item_def item1_def split: option.splits if_splits)
  with torrent_parse_urls [of np now item1 torrent] c show ?thesis by auto
qed

text \<open>
  Claim C6. When the collected URLs of an entry, without duplicates, are empty,
  \<^verbatim>\<open>TorrentFeeder._parse_rss_item\<close> returns \<^verbatim>\<open>None\<close>, and \<^verbatim>\<open>ShowRSSFeeder._parse_rss_item\<close> returns
  no downloadable either (it returns \<^verbatim>\<open>None\<close> when the entry has a title); no downloadable
  that either method returns has an empty list of URLs.
\<close>

theorem C6_no_urls_no_release:
  "(collect_urls item = [] \<longrightarrow>
       torrent_parse_rss_item np now item = None
     \<and> (\<forall>d. showrss_parse_rss_item qm np now item \<noteq> Inr (Some d))
     \<and> (title item \<noteq> None \<longrightarrow> showrss_parse_rss_item qm np now item = Inr None))
   \<and> (\<forall>d. torrent_parse_rss_item np now item = Some d \<longrightarrow> urls d \<noteq> [])
   \<and> (\<forall>d. showrss_parse_rss_item qm np now item = Inr (Some d) \<longrightarrow> urls d \<noteq> [])"
proof -
  have a: "torrent_parse_rss_item np now item = None" if "collect_urls item = []"
    using that by (rule torrent_parse_no_urls)
  have b: "showrss_parse_rss_item qm np now item \<noteq> Inr (Some d)" if "collect_urls item = []" for d
    using that showrss_parse_urls [of qm np now item d] by auto
  have c: "showrss_parse_rss_item qm np now item = Inr None"
    if "collect_urls item = []" "title item \<noteq> None"
    using that by (auto simp: showrss_parse_rss_item_def torrent_parse_no_urls split: option.splits)
  have d: "urls d \<noteq> []" if "torrent_parse_rss_item np now item = Some d" for d
    using torrent_parse_urls [OF that] by auto
  have e: "urls d \<noteq> []" if "showrss_parse_rss_item qm np now item = Inr (Some d)" for d
    using showrss_parse_urls [OF that] by auto
  from a b c d e show ?thesis by blast
qed

theorem C6_no_urls_no_release_witness:
  "collect_urls (example_item\<lparr>title := Some ''Show.Name.S01E02.Bad''\<rparr>) = []
   \<and> torrent_parse_rss_item example_nameparser 0
        (example_item\<lparr>title := Some ''Show.Name.S01E02.Bad''\<rparr>) = None
   \<and> showrss_parse_rss_item example_quality example_nameparser 0
        (example_item\<lparr>title := Some ''Show.Name.S01E02.Bad''\<rparr>) = Inr None"
proof -
  have h: "collect_urls (example_item\<lparr>title := Some ''Show.Name.S01E02.Bad''\<rparr>) = []"
    by (simp add: collect_urls_def example_item_def)
  have t: "title (example_item\<lparr>title := Some ''Show.Name.S01E02.Bad''\<rparr>) \<noteq> None"
    by simp
  from C6_no_urls_no_release [of "example_item\<lparr>title := Some ''Show.Name.S01E02.Bad''\<rparr>"
      example_nameparser 0 example_quality] h t
  show ?thesis by blast
qed

text \<open>
  Claim C8. For an entry whose title starts with the marker \<^verbatim>\<open>HD 720p: \<close>, with
  \<^verbatim>\<open>quality.HD720P_COMP\<close> a value that counts as true: \<^verbatim>\<open>ShowRSSFeeder._parse_rss_item\<close> gives what
  the inherited parser gives on the entry with the marker removed from the title, and
  replaces the quality of that result by \<^verbatim>\<open>HD720P_COMP\<close> exactly when it is
  \<^verbatim>\<open>UNKNOWN_QUALITY\<close>; any other quality is kept.
\<close>

theorem C8_showrss_marker:
  assumes "title item = Some (''HD 720p: '' @ rest)" and "HD720P_COMP qm \<noteq> 0"
  shows "showrss_parse_rss_item qm np now item =
           Inr (case torrent_parse_rss_item np now (item\<lparr>title := Some rest\<rparr>) of
                  None \<Rightarrow> None
                | Some torrent \<Rightarrow>
                    Some (if quality torrent = UNKNOWN_QUALITY qm
                          then torrent\<lparr>quality := HD720P_COMP qm\<rparr>
                          else torrent))"
  using assms
  by (simp add: showrss_parse_rss_item_def startswith_def split: option.splits)

theorem C8_showrss_marker_witness:
  "showrss_parse_rss_item example_quality example_nameparser 0
      (example_magnet_item\<lparr>title := Some ''HD 720p: Show.Name.S01E05''\<rparr>)
     = Inr (Some \<lparr>urls = [''magnet:?xt=urn:btih:abc''], episodes = [example_episode],
                    name = Some ''Show.Name.S01E05'', quality = 4, timestamp = CurrentTime 0\<rparr>)
   \<and> showrss_parse_rss_item (example_quality\<lparr>UNKNOWN_QUALITY := 1\<rparr>) example_nameparser 0
      (example_magnet_item\<lparr>title := Some ''HD 720p: Show.Name.S01E05''\<rparr>)
     = Inr (Some \<lparr>urls = [''magnet:?xt=urn:btih:abc''], episodes = [example_episode],
                    name = Some ''Show.Name.S01E05'', quality = 0, timestamp = CurrentTime 0\<rparr>)"
proof -
  let ?item = "example_magnet_item\<lparr>title := Some ''HD 720p: Show.Name.S01E05''\<rparr>"
  have h1: "title ?item = Some (''HD 720p: '' @ ''Show.Name.S01E05'')" by simp
  have h2: "HD720P_COMP example_quality \<noteq> 0" by (simp add: example_quality_def)
  have h3: "HD720P_COMP (example_quality\<lparr>UNKNOWN_QUALITY := 1\<rparr>) \<noteq> 0"
    by (simp add: example_quality_def)
  have m: "torrent_parse_rss_item example_nameparser 0 (?item\<lparr>title := Some ''Show.Name.S01E05''\<rparr>)
      = Some \<lparr>urls = [''magnet:?xt=urn:btih:abc''], episodes = [example_episode],
                name = Some ''Show.Name.S01E05'', quality = 0, timestamp = CurrentTime 0\<rparr>"
    by (simp add: torrent_parse_rss_item_def collect_urls_def example_magnet_item_def
        example_item_def example_nameparser_def)
  from C8_showrss_marker [OF h1 h2, of example_nameparser 0]
    C8_showrss_marker [OF h1 h3, of example_nameparser 0] m
  show ?thesis by (simp add: example_quality_def)
qed

text \<open>
  Claim C4 fails on the code. The third disjunct of the condition on an enclosure calls
  \<^verbatim>\<open>endwidth\<close>, which raises \<^verbatim>\<open>AttributeError\<close> and ends the loop over the enclosures: the URL of
  the second enclosure, of the bittorrent type, is not collected, nor is the URL of an
  enclosure that ends in \<^verbatim>\<open>.torrent\<close>, and both entries give no downloadable.
\<close>

theorem C4_enclosure_urls_lost:
  "collect_urls example_enclosure_item = []
   \<and> torrent_parse_rss_item example_nameparser 0 example_enclosure_item = None
   \<and> collect_urls example_torrent_enclosure_item = []
   \<and> torrent_parse_rss_item example_nameparser 0 example_torrent_enclosure_item = None"
  by (simp add: torrent_parse_rss_item_def collect_urls_def example_enclosure_item_def
      example_torrent_enclosure_item_def example_item_def enclosure_wanted_def link_wanted_def
      startswith_def endswith_def)

text \<open>
  Claim C9 fails on the code for a date that could not be parsed. The attribute
  \<^verbatim>\<open>published_parsed\<close> then exists and holds \<^verbatim>\<open>None\<close>; reading it raises nothing, and the
  downloadable gets \<^verbatim>\<open>None\<close> as its timestamp, not the current time.
\<close>

theorem C9_unparsed_date_kept:
  "torrent_parse_rss_item example_nameparser 12345
      (example_magnet_item\<lparr>published_parsed := Some PyNone\<rparr>)
   = Some \<lparr>urls = [''magnet:?xt=urn:btih:abc''], episodes = [example_episode],
            name = Some ''Show.Name.S01E05'', quality = 0, timestamp = FeedDate PyNone\<rparr>"
  by (simp add: torrent_parse_rss_item_def collect_urls_def example_magnet_item_def
      example_item_def example_nameparser_def)

text \<open>
  What holds of the date: an entry without the attribute gets the current time, and the
  date never decides whether an entry gives a downloadable.
\<close>

lemma torrent_parse_date_absent:
  "published_parsed item = None \<Longrightarrow> torrent_parse_rss_item np now item = Some d
     \<Longrightarrow> timestamp d = CurrentTime now"
  by (auto simp: torrent_parse_rss_item_def Let_def split: if_splits prod.splits)

lemma torrent_parse_date_not_fatal:
  "(torrent_parse_rss_item np now (item\<lparr>published_parsed := p\<rparr>) = None)
     = (torrent_parse_rss_item np now item = None)"
  by (simp add: torrent_parse_rss_item_def collect_urls_def Let_def split: prod.splits)

end
